theory Spec2Isabelle
  imports Complex_Main
begin

section \<open>Python values\<close>

text \<open>
  The values that \<open>json.load\<close>, \<open>json.dump\<close> and \<open>response.json()\<close> exchange with the
  code: \<open>JNull\<close> is Python's \<open>None\<close>, \<open>JDict\<close> a \<open>dict\<close> with string keys (an association
  list, looked up with \<open>map_of\<close>), \<open>JStr\<close> a \<open>str\<close> (its UTF-8 bytes). Timestamps are Python
  floats; they are read here as real numbers, so rounding is not part of the model.
\<close>

datatype json =
    JNull
  | JBool bool
  | JInt int
  | JFloat real
  | JStr string
  | JList "json list"
  | JDict "(string \<times> json) list"

text \<open>\<open>str(n)\<close> for an integer, used by the f-strings that print a status code.\<close>

definition digit :: "nat \<Rightarrow> char" where
  "digit n = ''0123456789'' ! n"

fun str_nat :: "nat \<Rightarrow> string" where
  "str_nat n = (if n < 10 then [digit n] else str_nat (n div 10) @ [digit (n mod 10)])"

declare str_nat.simps [simp del]

definition str_int :: "int \<Rightarrow> string" where
  "str_int i = (if i < 0 then CHR ''-'' # str_nat (nat (- i)) else str_nat (nat i))"

text \<open>\<open>str.lower()\<close>, on the ASCII letters (no other character lowers to a letter of
  \<open>bearer\<close>, the only string the code compares a lowered string with).\<close>

definition lower_char :: "char \<Rightarrow> char" where
  "lower_char c =
     (case map_of (zip ''ABCDEFGHIJKLMNOPQRSTUVWXYZ'' ''abcdefghijklmnopqrstuvwxyz'') c of
        Some l \<Rightarrow> l
      | None \<Rightarrow> c)"

definition lower :: "string \<Rightarrow> string" where
  "lower s = map lower_char s"

text \<open>The substring test of Python's \<open>x in y\<close> on two strings.\<close>

fun starts_with :: "string \<Rightarrow> string \<Rightarrow> bool" where
  "starts_with [] s = True"
| "starts_with (p # ps) [] = False"
| "starts_with (p # ps) (c # cs) = (p = c \<and> starts_with ps cs)"

fun substring :: "string \<Rightarrow> string \<Rightarrow> bool" where
  "substring p [] = (p = [])"
| "substring p (c # cs) = (starts_with p (c # cs) \<or> substring p cs)"

section \<open>Exceptions\<close>

text \<open>
  A response as the code reads it: \<open>response.status_code\<close>, \<open>response.text\<close> and
  \<open>response.json()\<close> (\<open>None\<close> when decoding the body raises).
\<close>

record response =
  status_code :: int
  resp_text :: string
  resp_json :: "json option"

text \<open>
  Exceptions of the libraries, each with its \<open>str(e)\<close>: \<open>RequestException\<close> is
  \<open>requests.exceptions.RequestException\<close> with the status of \<open>e.response\<close> when there is
  one; \<open>TimeoutException\<close>, \<open>NetworkError\<close>, \<open>RequestError\<close> (any other
  \<open>httpx.RequestError\<close>) and \<open>HTTPStatusError\<close> are httpx's; \<open>ValidationError\<close> is
  pydantic's; \<open>Exception\<close> is any other.
\<close>

datatype py_exn =
    RequestException string "int option"
  | TimeoutException string
  | NetworkError string
  | RequestError string
  | HTTPStatusError string response
  | ValidationError string
  | TypeError string
  | AttributeError string
  | OSError string
  | Exception string

fun str_exn :: "py_exn \<Rightarrow> string" where
  "str_exn (RequestException m r) = m"
| "str_exn (TimeoutException m) = m"
| "str_exn (NetworkError m) = m"
| "str_exn (RequestError m) = m"
| "str_exn (HTTPStatusError m r) = m"
| "str_exn (ValidationError m) = m"
| "str_exn (TypeError m) = m"
| "str_exn (AttributeError m) = m"
| "str_exn (OSError m) = m"
| "str_exn (Exception m) = m"

text \<open>
  exceptions/errors.py. \<open>HTTPError status_code message response_body cause\<close>: the last
  field is the \<open>__cause__\<close> that \<open>raise ... from e\<close> sets. \<open>APIError message status_code
  response_body\<close>. The three authentication errors carry \<open>message status_code details\<close>;
  \<open>InvalidCredentialsError\<close> and \<open>CertificateError\<close> are subclasses of \<open>AuthError\<close>.
\<close>

datatype sdk_error =
    HTTPError int string json "py_exn option"
  | APIError string "int option" json
  | AuthError string "int option" json
  | InvalidCredentialsError string "int option" json
  | CertificateError string "int option" json

datatype raised = SDK sdk_error | Py py_exn

section \<open>types/auth.py\<close>

text \<open>
  The pydantic models. A constructor takes its keyword arguments as an association list
  and either validates them or raises \<open>ValidationError\<close>; keys it does not know are
  ignored. An \<open>int\<close> field takes a JSON integer and a \<open>str\<close> field a JSON string:
  pydantic's coercions of other types (a numeric string for an \<open>int\<close>) are not modelled.
\<close>

record token_response =
  expires_in :: int
  scope :: string
  token_type :: string
  access_token :: string
  jwt_token :: string
  jwt_pucomex :: "string option"

fun as_int :: "json option \<Rightarrow> int option" where
  "as_int (Some (JInt n)) = Some n"
| "as_int _ = None"

fun as_str :: "json option \<Rightarrow> string option" where
  "as_str (Some (JStr s)) = Some s"
| "as_str _ = None"

text \<open>A field \<open>str | None\<close> with default \<open>None\<close>: absent and \<open>None\<close> both give \<open>None\<close>.\<close>

fun as_opt_str :: "json option \<Rightarrow> string option option" where
  "as_opt_str None = Some None"
| "as_opt_str (Some JNull) = Some None"
| "as_opt_str (Some (JStr s)) = Some (Some s)"
| "as_opt_str _ = None"

fun as_list :: "json option \<Rightarrow> json list option" where
  "as_list None = Some []"
| "as_list (Some (JList xs)) = Some xs"
| "as_list _ = None"

definition validate_token_type :: "string \<Rightarrow> bool" where
  "validate_token_type v = (lower v = ''bearer'')"

definition TokenResponse :: "(string \<times> json) list \<Rightarrow> py_exn + token_response" where
  "TokenResponse kwargs =
     (case as_int (map_of kwargs ''expires_in'') of
        None \<Rightarrow> Inl (ValidationError ''expires_in'')
      | Some e \<Rightarrow>
     (case as_str (map_of kwargs ''scope'') of
        None \<Rightarrow> Inl (ValidationError ''scope'')
      | Some s \<Rightarrow>
     (case as_str (map_of kwargs ''token_type'') of
        None \<Rightarrow> Inl (ValidationError ''token_type'')
      | Some t \<Rightarrow>
     (case as_str (map_of kwargs ''access_token'') of
        None \<Rightarrow> Inl (ValidationError ''access_token'')
      | Some a \<Rightarrow>
     (case as_str (map_of kwargs ''jwt_token'') of
        None \<Rightarrow> Inl (ValidationError ''jwt_token'')
      | Some j \<Rightarrow>
     (case as_opt_str (map_of kwargs ''jwt_pucomex'') of
        None \<Rightarrow> Inl (ValidationError ''jwt_pucomex'')
      | Some p \<Rightarrow>
          if validate_token_type t
          then Inr \<lparr>expires_in = e, scope = s, token_type = t, access_token = a,
                    jwt_token = j, jwt_pucomex = p\<rparr>
          else Inl (ValidationError ''token_type'')))))))"

record auth_error_response =
  err_timestamp :: string
  err_status :: int
  err_error :: string
  err_message :: string
  err_details :: "json list"
  err_trackerId :: "string option"
  err_path :: string

definition AuthErrorResponse :: "(string \<times> json) list \<Rightarrow> py_exn + auth_error_response" where
  "AuthErrorResponse kwargs =
     (case as_str (map_of kwargs ''timestamp'') of
        None \<Rightarrow> Inl (ValidationError ''timestamp'')
      | Some ts \<Rightarrow>
     (case as_int (map_of kwargs ''status'') of
        None \<Rightarrow> Inl (ValidationError ''status'')
      | Some st \<Rightarrow>
     (case as_str (map_of kwargs ''error'') of
        None \<Rightarrow> Inl (ValidationError ''error'')
      | Some er \<Rightarrow>
     (case as_str (map_of kwargs ''message'') of
        None \<Rightarrow> Inl (ValidationError ''message'')
      | Some m \<Rightarrow>
     (case as_list (map_of kwargs ''details'') of
        None \<Rightarrow> Inl (ValidationError ''details'')
      | Some d \<Rightarrow>
     (case as_opt_str (map_of kwargs ''trackerId'') of
        None \<Rightarrow> Inl (ValidationError ''trackerId'')
      | Some tr \<Rightarrow>
     (case as_str (map_of kwargs ''path'') of
        None \<Rightarrow> Inl (ValidationError ''path'')
      | Some pa \<Rightarrow>
          Inr \<lparr>err_timestamp = ts, err_status = st, err_error = er, err_message = m,
                err_details = d, err_trackerId = tr, err_path = pa\<rparr>)))))))"

text \<open>\<open>Model(**data)\<close>: \<open>data\<close> must be a mapping, else Python raises \<open>TypeError\<close>.\<close>

definition TokenResponse_of :: "json \<Rightarrow> py_exn + token_response" where
  "TokenResponse_of data =
     (case data of JDict kwargs \<Rightarrow> TokenResponse kwargs
      | _ \<Rightarrow> Inl (TypeError ''argument after ** must be a mapping''))"

definition AuthErrorResponse_of :: "json \<Rightarrow> py_exn + auth_error_response" where
  "AuthErrorResponse_of data =
     (case data of JDict kwargs \<Rightarrow> AuthErrorResponse kwargs
      | _ \<Rightarrow> Inl (TypeError ''argument after ** must be a mapping''))"

section \<open>The world outside the program\<close>

text \<open>
  config.py: the two environments and their \<open>.value\<close>.
\<close>

datatype environment = TRIAL | PRODUCTION

fun environment_value :: "environment \<Rightarrow> string" where
  "environment_value TRIAL = ''Trial''"
| "environment_value PRODUCTION = ''Production''"

text \<open>
  The manager owns two files of its storage directory: \<open>token_file_path\<close>
  (\<open>token.json\<close>) and \<open>config_file_path\<close> (\<open>config.json\<close>). A file that exists is
  unreadable (\<open>open\<close> or decoding raises), holds text that is not JSON, or holds the text
  of a JSON value; \<open>json.load\<close> gives back the value \<open>json.dump\<close> wrote.
\<close>

datatype path = TokenFile | ConfigFile

datatype file_content = Unreadable | NotJson | Json json

datatype level = DEBUG | INFO | WARNING

datatype outcome = Responds response | Raises py_exn

record http_request =
  req_method :: string
  req_url :: string
  req_headers :: "(string \<times> string) list"
  req_json :: json

text \<open>
  Everything the code reaches through a library call. \<open>clock\<close> lists the successive
  readings of \<open>time.time()\<close> and \<open>ticks\<close> counts the readings taken. \<open>write_fails\<close> and
  \<open>unlink_fails\<close> say where opening for writing and \<open>unlink\<close> raise. \<open>idp\<close> gives the
  outcome of the n-th token request to the identity provider (building the
  \<open>requests\<close> session with its PKCS12 adapter and posting: a response, or an exception)
  and \<open>idp_calls\<close> counts them. \<open>http\<close> gives the outcome of the n-th
  \<open>httpx\<close> request, \<open>http_calls\<close> counts them, \<open>slept\<close> lists the delays of
  \<open>asyncio.sleep\<close> and \<open>logged\<close> the log records (their interpolated paths and exception
  texts left out).
\<close>

record world =
  clock :: "nat \<Rightarrow> real"
  ticks :: nat
  files :: "path \<Rightarrow> file_content option"
  write_fails :: "path \<Rightarrow> bool"
  unlink_fails :: "path \<Rightarrow> bool"
  file_reads :: nat
  idp :: "nat \<Rightarrow> outcome"
  idp_calls :: nat
  http :: "nat \<Rightarrow> http_request \<Rightarrow> outcome"
  http_calls :: nat
  slept :: "real list"
  logged :: "(level \<times> string) list"

definition time_time :: "world \<Rightarrow> real \<times> world" where
  "time_time w = (clock w (ticks w), w\<lparr>ticks := Suc (ticks w)\<rparr>)"

definition logger :: "level \<Rightarrow> string \<Rightarrow> world \<Rightarrow> world" where
  "logger l m w = w\<lparr>logged := logged w @ [(l, m)]\<rparr>"

text \<open>\<open>with open(p, "w") as f: json.dump(v, f)\<close>\<close>

definition json_dump_to :: "path \<Rightarrow> json \<Rightarrow> world \<Rightarrow> py_exn + world" where
  "json_dump_to p v w =
     (if write_fails w p then Inl (OSError ''open'')
      else Inr (w\<lparr>files := (files w)(p := Some (Json v))\<rparr>))"

definition path_exists :: "path \<Rightarrow> world \<Rightarrow> bool" where
  "path_exists p w = (files w p \<noteq> None)"

definition path_unlink :: "path \<Rightarrow> world \<Rightarrow> py_exn + world" where
  "path_unlink p w =
     (if files w p = None \<or> unlink_fails w p then Inl (OSError ''unlink'')
      else Inr (w\<lparr>files := (files w)(p := None)\<rparr>))"

definition try_bind :: "'e + 'a \<Rightarrow> ('a \<Rightarrow> 'e + 'b) \<Rightarrow> 'e + 'b" where
  "try_bind r f = (case r of Inl e \<Rightarrow> Inl e | Inr v \<Rightarrow> f v)"

text \<open>Python's \<open>x in y\<close> for a string \<open>x\<close>: key membership in a dict, element membership
  in a list, substring test in a string, \<open>TypeError\<close> on anything else.\<close>

fun py_in :: "string \<Rightarrow> json \<Rightarrow> py_exn + bool" where
  "py_in k (JDict kvs) = Inr (map_of kvs k \<noteq> None)"
| "py_in k (JList xs) = Inr (JStr k \<in> set xs)"
| "py_in k (JStr s) = Inr (substring k s)"
| "py_in k v = Inl (TypeError ''argument is not iterable'')"

text \<open>\<open>all(field in d for field in fields)\<close>: stops at the first \<open>False\<close>.\<close>

fun all_in :: "string list \<Rightarrow> json \<Rightarrow> py_exn + bool" where
  "all_in [] d = Inr True"
| "all_in (f # fs) d =
     (case py_in f d of Inl e \<Rightarrow> Inl e | Inr b \<Rightarrow> if b then all_in fs d else Inr False)"

text \<open>\<open>d[k]\<close> and \<open>d.get(k, default)\<close> for a string key.\<close>

fun subscript :: "json \<Rightarrow> string \<Rightarrow> py_exn + json" where
  "subscript (JDict kvs) k =
     (case map_of kvs k of Some v \<Rightarrow> Inr v | None \<Rightarrow> Inl (Exception ''KeyError''))"
| "subscript v k = Inl (TypeError ''indices must be integers'')"

fun py_get :: "json \<Rightarrow> string \<Rightarrow> json \<Rightarrow> py_exn + json" where
  "py_get (JDict kvs) k dflt =
     (case map_of kvs k of Some v \<Rightarrow> Inr v | None \<Rightarrow> Inr dflt)"
| "py_get v k dflt = Inl (AttributeError ''get'')"

text \<open>\<open>saved_at + expires_in\<close>, where \<open>saved_at\<close> came out of the file.\<close>

fun py_add_int :: "json \<Rightarrow> int \<Rightarrow> py_exn + real" where
  "py_add_int (JInt n) e = Inr (real_of_int (n + e))"
| "py_add_int (JFloat r) e = Inr (r + real_of_int e)"
| "py_add_int (JBool b) e = Inr (real_of_int ((if b then 1 else 0) + e))"
| "py_add_int v e = Inl (TypeError ''unsupported operand type(s) for +'')"

section \<open>auth/manager.py: AuthManager\<close>

text \<open>
  The fields of the manager that its methods read or write; \<open>cached_token\<close> and
  \<open>token_expires_at\<close> are \<open>_cached_token\<close> and \<open>_token_expires_at\<close>.
\<close>

record auth_manager =
  consumer_key :: string
  consumer_secret :: string
  certificate_path :: string
  certificate_password :: string
  environment :: environment
  cached_token :: "token_response option"
  token_expires_at :: "real option"

definition buffer_seconds :: real where
  "buffer_seconds = 60"

definition is_token_valid ::
  "auth_manager \<Rightarrow> token_response option \<Rightarrow> real option \<Rightarrow> world \<Rightarrow> bool \<times> world" where
  "is_token_valid self token expires_at w =
     (let token_to_check = (case token of Some t \<Rightarrow> Some t | None \<Rightarrow> cached_token self);
          expires_at_to_check =
            (case expires_at of Some e \<Rightarrow> Some e | None \<Rightarrow> token_expires_at self)
      in case token_to_check of
           None \<Rightarrow> (False, w)
         | Some t \<Rightarrow>
             (case expires_at_to_check of
                None \<Rightarrow> (False, w)
              | Some e \<Rightarrow> (let (now, w1) = time_time w in (now < e - buffer_seconds, w1))))"

definition token_data_of :: "token_response \<Rightarrow> real \<Rightarrow> json" where
  "token_data_of token_response now =
     JDict [(''expires_in'', JInt (expires_in token_response)),
            (''scope'', JStr (scope token_response)),
            (''token_type'', JStr (token_type token_response)),
            (''access_token'', JStr (access_token token_response)),
            (''jwt_token'', JStr (jwt_token token_response)),
            (''jwt_pucomex'',
               (case jwt_pucomex token_response of None \<Rightarrow> JNull | Some p \<Rightarrow> JStr p)),
            (''saved_at'', JFloat now)]"

definition save_token_to_file :: "token_response \<Rightarrow> world \<Rightarrow> world" where
  "save_token_to_file token_response w =
     (let (now, w1) = time_time w;
          token_data = token_data_of token_response now
      in case json_dump_to TokenFile token_data w1 of
           Inl e \<Rightarrow> logger WARNING ''Failed to save token to file'' w1
         | Inr w2 \<Rightarrow> logger DEBUG ''Token saved'' w2)"

definition required_fields :: "string list" where
  "required_fields = [''expires_in'', ''access_token'', ''jwt_token'', ''token_type'']"

text \<open>The keyword arguments of the \<open>TokenResponse(...)\<close> call of the loader, evaluated in
  the order they are written.\<close>

definition token_kwargs :: "json \<Rightarrow> py_exn + (string \<times> json) list" where
  "token_kwargs token_data =
     try_bind (subscript token_data ''expires_in'') (\<lambda>e.
     try_bind (py_get token_data ''scope'' (JStr ''default'')) (\<lambda>s.
     try_bind (subscript token_data ''token_type'') (\<lambda>t.
     try_bind (subscript token_data ''access_token'') (\<lambda>a.
     try_bind (subscript token_data ''jwt_token'') (\<lambda>j.
     try_bind (py_get token_data ''jwt_pucomex'' JNull) (\<lambda>p.
       Inr [(''expires_in'', e), (''scope'', s), (''token_type'', t),
            (''access_token'', a), (''jwt_token'', j), (''jwt_pucomex'', p)]))))))"

text \<open>The body of the \<open>try\<close> of the loader once \<open>json.load\<close> has returned: the result,
  or the exception that the last \<open>except\<close> clause catches.\<close>

definition load_token_data ::
  "json \<Rightarrow> world \<Rightarrow> (py_exn + (token_response \<times> real) option) \<times> world" where
  "load_token_data token_data w =
     (case all_in required_fields token_data of
        Inl e \<Rightarrow> (Inl e, w)
      | Inr present \<Rightarrow>
          if \<not> present
          then (Inr None, logger WARNING ''Token file missing required fields'' w)
          else
            (case try_bind (token_kwargs token_data) TokenResponse of
               Inl e \<Rightarrow> (Inl e, w)
             | Inr token_response \<Rightarrow>
                 (let (now, w1) = time_time w in
                  case try_bind (py_get token_data ''saved_at'' (JFloat now))
                         (\<lambda>saved_at. py_add_int saved_at (expires_in token_response)) of
                    Inl e \<Rightarrow> (Inl e, w1)
                  | Inr expires_at \<Rightarrow>
                      (Inr (Some (token_response, expires_at)),
                       logger DEBUG ''Token loaded'' w1))))"

definition load_token_from_file ::
  "world \<Rightarrow> (token_response option \<times> real option) \<times> world" where
  "load_token_from_file w =
     (if \<not> path_exists TokenFile w
      then ((None, None), logger DEBUG ''No token file found'' w)
      else
        (let w1 = w\<lparr>file_reads := Suc (file_reads w)\<rparr> in
         case files w TokenFile of
           None \<Rightarrow> ((None, None), logger WARNING ''Failed to load token from file'' w1)
         | Some Unreadable \<Rightarrow>
             ((None, None), logger WARNING ''Failed to load token from file'' w1)
         | Some NotJson \<Rightarrow> ((None, None), logger WARNING ''Invalid JSON in token file'' w1)
         | Some (Json token_data) \<Rightarrow>
             (case load_token_data token_data w1 of
                (Inl e, w2) \<Rightarrow>
                  ((None, None), logger WARNING ''Failed to load token from file'' w2)
              | (Inr None, w2) \<Rightarrow> ((None, None), w2)
              | (Inr (Some (token_response, expires_at)), w2) \<Rightarrow>
                  ((Some token_response, Some expires_at), w2))))"

definition save_config :: "auth_manager \<Rightarrow> world \<Rightarrow> world" where
  "save_config self w =
     (let (now, w1) = time_time w;
          config_data =
            JDict [(''consumer_key'', JStr (consumer_key self)),
                   (''consumer_secret'', JStr (consumer_secret self)),
                   (''certificate_path'', JStr (certificate_path self)),
                   (''certificate_password'', JStr (certificate_password self)),
                   (''environment'', JStr (environment_value (environment self))),
                   (''saved_at'', JFloat now)]
      in case json_dump_to ConfigFile config_data w1 of
           Inl e \<Rightarrow> logger WARNING ''Failed to save auth config to file'' w1
         | Inr w2 \<Rightarrow> logger DEBUG ''Auth config saved'' w2)"

text \<open>
  The \<open>try: ... except Exception: message = fallback\<close> of each error branch of
  \<open>get_token\<close>: the provider's message when the body is a valid error document.
\<close>

definition error_message :: "response \<Rightarrow> string \<Rightarrow> string" where
  "error_message response fallback =
     (case resp_json response of
        None \<Rightarrow> fallback
      | Some error_data \<Rightarrow>
          (case AuthErrorResponse_of error_data of
             Inl e \<Rightarrow> fallback
           | Inr error_response \<Rightarrow> err_message error_response))"

text \<open>The two fallback messages in Portuguese, as UTF-8 bytes.\<close>

definition certificate_fallback :: string where
  "certificate_fallback =
     ''N'' @ [CHR 0xC3, CHR 0xA3] @ ''o foi poss'' @ [CHR 0xC3, CHR 0xAD] @
     ''vel identificar um certificado digital v'' @ [CHR 0xC3, CHR 0xA1] @ ''lido.''"

definition credentials_fallback :: string where
  "credentials_fallback = ''Credenciais inv'' @ [CHR 0xC3, CHR 0xA1] @ ''lidas.''"

text \<open>The last two \<open>except\<close> clauses of \<open>get_token\<close>: an exception of \<open>requests\<close>
  keeps the status of its response (0 without one), any other exception gives 0.\<close>

definition wrap_exception :: "py_exn \<Rightarrow> sdk_error" where
  "wrap_exception e =
     (case e of
        RequestException m r \<Rightarrow>
          HTTPError (case r of Some st \<Rightarrow> st | None \<Rightarrow> 0)
            (''HTTP error during authentication: '' @ m) JNull (Some e)
      | _ \<Rightarrow>
          HTTPError 0 (''Unexpected error during authentication: '' @ str_exn e) JNull
            (Some e))"

definition error_details :: "response \<Rightarrow> json" where
  "error_details response = JDict [(''response'', JStr (resp_text response))]"

text \<open>The part of \<open>get_token\<close> that fetches a new token (from the comment
  \<open>Token not valid in cache or file\<close> to the end of the method).\<close>

definition fetch_token ::
  "auth_manager \<Rightarrow> world \<Rightarrow> (sdk_error + token_response) \<times> auth_manager \<times> world" where
  "fetch_token self w0 =
     (let w = logger DEBUG ''Fetching new token from API'' w0;
          posted = idp w (idp_calls w);
          w1 = w\<lparr>idp_calls := Suc (idp_calls w)\<rparr>
      in case posted of
           Raises e \<Rightarrow> (Inl (wrap_exception e), self, w1)
         | Responds response \<Rightarrow>
             if status_code response = 200 then
               (case resp_json response of
                  None \<Rightarrow>
                    (Inl (wrap_exception (RequestException ''Expecting value'' None)), self, w1)
                | Some response_data \<Rightarrow>
                    (case TokenResponse_of response_data of
                       Inl e \<Rightarrow> (Inl (wrap_exception e), self, w1)
                     | Inr token_response \<Rightarrow>
                         (let (now, w2) = time_time w1;
                              self1 = self\<lparr>cached_token := Some token_response,
                                token_expires_at :=
                                  Some (now + real_of_int (expires_in token_response))\<rparr>;
                              w3 = save_token_to_file token_response w2;
                              w4 = (if environment self1 = PRODUCTION
                                    then save_config self1 w3 else w3)
                          in (Inr token_response, self1, w4))))
             else if status_code response = 400 then
               (Inl (CertificateError (error_message response certificate_fallback)
                       (Some 400) (error_details response)), self, w1)
             else if status_code response = 401 \<or> status_code response = 403 then
               (Inl (InvalidCredentialsError (error_message response credentials_fallback)
                       (Some (status_code response)) (error_details response)), self, w1)
             else
               (Inl (AuthError
                       (error_message response
                          (''Authentication failed with status '' @
                           str_int (status_code response)))
                       (Some (status_code response)) (error_details response)), self, w1))"

definition get_token ::
  "auth_manager \<Rightarrow> world \<Rightarrow> (sdk_error + token_response) \<times> auth_manager \<times> world" where
  "get_token self w =
     (let (valid, w1) = is_token_valid self None None w in
      case (if valid then cached_token self else None) of
        Some cached \<Rightarrow> (Inr cached, self, logger DEBUG ''Using cached token from memory'' w1)
      | None \<Rightarrow>
          (let ((file_token, file_expires_at), w2) = load_token_from_file w1 in
           case file_token of
             None \<Rightarrow> fetch_token self w2
           | Some tok \<Rightarrow>
               (let (file_valid, w3) = is_token_valid self file_token file_expires_at w2 in
                if file_valid
                then (Inr tok,
                      self\<lparr>cached_token := file_token, token_expires_at := file_expires_at\<rparr>,
                      logger DEBUG ''Using token from file'' w3)
                else fetch_token self w3)))"

definition clear_cache :: "auth_manager \<Rightarrow> world \<Rightarrow> auth_manager \<times> world" where
  "clear_cache self w = (self\<lparr>cached_token := None, token_expires_at := None\<rparr>, w)"

text \<open>\<open>clear_stored_token\<close> with its \<open>try ... except Exception\<close>: \<open>Inr ()\<close> is a normal
  return, \<open>Inl\<close> an exception that reaches the caller.\<close>

definition clear_stored_token ::
  "auth_manager \<Rightarrow> world \<Rightarrow> (py_exn + unit) \<times> auth_manager \<times> world" where
  "clear_stored_token self w =
     (let (self1, w0) = clear_cache self w in
      if path_exists TokenFile w0 then
        (case path_unlink TokenFile w0 of
           Inl e \<Rightarrow> (Inr (), self1, logger WARNING ''Failed to delete token file'' w0)
         | Inr w1 \<Rightarrow> (Inr (), self1, logger DEBUG ''Token file deleted'' w1))
      else (Inr (), self1, w0))"

section \<open>http/session.py: HTTPSession\<close>

record http_session =
  timeout :: real
  max_retries :: int
  retry_backoff :: real

definition asyncio_sleep :: "real \<Rightarrow> world \<Rightarrow> world" where
  "asyncio_sleep delay w = w\<lparr>slept := slept w @ [delay]\<rparr>"

text \<open>\<open>await self.client.request(...)\<close>: one attempt.\<close>

definition client_request :: "http_request \<Rightarrow> world \<Rightarrow> outcome \<times> world" where
  "client_request req w = (http w (http_calls w) req, w\<lparr>http_calls := Suc (http_calls w)\<rparr>)"

text \<open>The exceptions of the first \<open>except\<close> clause of \<open>request\<close>:
  \<open>httpx.TimeoutException\<close> and \<open>httpx.NetworkError\<close>.\<close>

fun retryable :: "py_exn \<Rightarrow> bool" where
  "retryable (TimeoutException m) = True"
| "retryable (NetworkError m) = True"
| "retryable e = False"

text \<open>
  The loop \<open>for attempt in range(self.max_retries + 1)\<close> from a given \<open>attempt\<close> on, with
  the current \<open>backoff\<close> and \<open>last_exception\<close>, and the two lines after the loop. The result
  is \<open>Inl e\<close> when \<open>e\<close> is raised, \<open>Inr (Some response)\<close> when a response is returned and
  \<open>Inr None\<close> when the method falls off its end.
\<close>

function request_from ::
  "http_session \<Rightarrow> http_request \<Rightarrow> int \<Rightarrow> real \<Rightarrow> py_exn option \<Rightarrow> world \<Rightarrow>
     (py_exn + response option) \<times> world" where
  "request_from self req attempt backoff last_exception w =
     (if attempt < max_retries self + 1 then
        (case client_request req w of
           (Responds response, w1) \<Rightarrow> (Inr (Some response), w1)
         | (Raises e, w1) \<Rightarrow>
             if retryable e then
               if attempt < max_retries self
               then request_from self req (attempt + 1) (backoff * 2) (Some e)
                      (asyncio_sleep backoff w1)
               else (Inl e, w1)
             else (Inl e, w1))
      else
        (case last_exception of
           Some e \<Rightarrow> (Inl e, w)
         | None \<Rightarrow> (Inr None, w)))"
  by pat_completeness auto
termination
  by (relation "measure (\<lambda>(self, req, attempt, backoff, last_exception, w).
        nat (max_retries self + 1 - attempt))") auto

declare request_from.simps [simp del]

definition request ::
  "http_session \<Rightarrow> http_request \<Rightarrow> world \<Rightarrow> (py_exn + response option) \<times> world" where
  "request self req w = request_from self req 0 (retry_backoff self) None w"

section \<open>http/executor.py: HTTPExecutor\<close>

record integra_config =
  cfg_environment :: environment
  cfg_token :: string
  cfg_base_url :: "string option"
  cfg_auth_manager :: "auth_manager option"

definition api_base_url :: "integra_config \<Rightarrow> string" where
  "api_base_url cfg =
     (case (case cfg_base_url cfg of None \<Rightarrow> None | Some u \<Rightarrow> if u = [] then None else Some u) of
        Some u \<Rightarrow> u
      | None \<Rightarrow>
          (case cfg_environment cfg of
             TRIAL \<Rightarrow> ''https://gateway.apiserpro.serpro.gov.br/integra-contador-trial''
           | PRODUCTION \<Rightarrow> ''https://gateway.apiserpro.serpro.gov.br/integra-contador''))"

record http_executor =
  config :: integra_config
  session :: http_session

text \<open>The headers of a business request: \<open>jwt_token\<close> is added in production when
  the token response had a non-empty one.\<close>

definition build_headers :: "integra_config \<Rightarrow> string \<Rightarrow> string option \<Rightarrow> (string \<times> string) list" where
  "build_headers cfg token jwt =
     [(''accept'', ''text/plain''), (''Authorization'', ''Bearer '' @ token),
      (''Content-Type'', ''application/json'')] @
     (case jwt of
        None \<Rightarrow> []
      | Some j \<Rightarrow> if j \<noteq> [] \<and> cfg_environment cfg = PRODUCTION then [(''jwt_token'', j)] else [])"

text \<open>What \<open>execute\<close> does with the result of \<open>self.session.request\<close>: the body of its
  \<open>try\<close> after the call, and its two \<open>except\<close> clauses (the response of an
  \<open>HTTPStatusError\<close> is taken to be truthy, so that its text is carried).\<close>

definition handle_result :: "py_exn + response option \<Rightarrow> raised + json" where
  "handle_result r =
     (case r of
        Inr (Some response) \<Rightarrow>
          if status_code response \<ge> 400 then
            (let error_body =
               (case resp_json response of Some v \<Rightarrow> v | None \<Rightarrow> JStr (resp_text response))
             in if status_code response \<ge> 500
                then Inl (SDK (HTTPError (status_code response)
                       (''Server error: '' @ str_int (status_code response)) error_body None))
                else Inl (SDK (APIError (''API error: '' @ str_int (status_code response))
                       (Some (status_code response))
                       (case error_body of JDict kvs \<Rightarrow> error_body | _ \<Rightarrow> JNull))))
          else
            (case resp_json response of
               Some v \<Rightarrow> Inr v
             | None \<Rightarrow> Inr (JDict [(''text'', JStr (resp_text response))]))
      | Inr None \<Rightarrow> Inl (Py (AttributeError ''status_code''))
      | Inl e \<Rightarrow>
          (case e of
             HTTPStatusError m resp \<Rightarrow>
               Inl (SDK (HTTPError (status_code resp) m (JStr (resp_text resp)) None))
           | TimeoutException m \<Rightarrow> Inl (SDK (HTTPError 0 (''Request failed: '' @ m) JNull None))
           | NetworkError m \<Rightarrow> Inl (SDK (HTTPError 0 (''Request failed: '' @ m) JNull None))
           | RequestError m \<Rightarrow> Inl (SDK (HTTPError 0 (''Request failed: '' @ m) JNull None))
           | _ \<Rightarrow> Inl (Py e)))"

text \<open>The first step of \<open>execute\<close>: the bearer token and the \<open>jwt_token\<close>, from the
  manager when the configuration has one, else the configured token.\<close>

definition resolve_token ::
  "http_executor \<Rightarrow> world \<Rightarrow>
     (sdk_error + string \<times> string option) \<times> http_executor \<times> world" where
  "resolve_token self w =
     (case cfg_auth_manager (config self) of
        None \<Rightarrow> (Inr (cfg_token (config self), None), self, w)
      | Some am \<Rightarrow>
          (case get_token am w of
             (r, am1, w1) \<Rightarrow>
               (case r of
                  Inl err \<Rightarrow> Inl err
                | Inr token_response \<Rightarrow>
                    Inr (access_token token_response, Some (jwt_token token_response)),
                self\<lparr>config := (config self)\<lparr>cfg_auth_manager := Some am1\<rparr>\<rparr>, w1)))"

definition build_request ::
  "http_executor \<Rightarrow> string \<Rightarrow> json \<Rightarrow> string \<Rightarrow> string option \<Rightarrow> http_request" where
  "build_request self endpoint body token jwt =
     \<lparr>req_method = ''POST'',
      req_url = api_base_url (config self) @ ''/v1/'' @ endpoint,
      req_headers = build_headers (config self) token jwt,
      req_json = body\<rparr>"

definition execute ::
  "http_executor \<Rightarrow> string \<Rightarrow> json \<Rightarrow> world \<Rightarrow> (raised + json) \<times> http_executor \<times> world" where
  "execute self endpoint body w =
     (case resolve_token self w of
        (Inl err, self1, w1) \<Rightarrow> (Inl (SDK err), self1, w1)
      | (Inr (token, jwt), self1, w1) \<Rightarrow>
          (case request (session self) (build_request self endpoint body token jwt) w1 of
             (r, w2) \<Rightarrow> (handle_result r, self1, w2)))"

section \<open>The vocabulary of the properties\<close>

text \<open>The first test of \<open>get_token\<close>: the in-memory token is valid at the time of the
  call.\<close>

definition memory_hit :: "auth_manager \<Rightarrow> world \<Rightarrow> bool" where
  "memory_hit self w = fst (is_token_valid self None None w)"

text \<open>The second test of \<open>get_token\<close>, after the first one has read the clock: the token
  file gives a token that is valid, together with its expiry.\<close>

definition file_hit :: "auth_manager \<Rightarrow> world \<Rightarrow> (token_response \<times> real option) option" where
  "file_hit self w =
     (let w1 = snd (is_token_valid self None None w);
          ((file_token, file_expires_at), w2) = load_token_from_file w1
      in case file_token of
           None \<Rightarrow> None
         | Some tok \<Rightarrow>
             if fst (is_token_valid self file_token file_expires_at w2)
             then Some (tok, file_expires_at) else None)"





section \<open>Concrete inputs\<close>

definition example_token :: token_response where
  "example_token =
     \<lparr>expires_in = 2000, scope = ''default'', token_type = ''Bearer'',
      access_token = ''tok1'', jwt_token = ''jwt1'', jwt_pucomex = None\<rparr>"

definition example_token_json :: json where
  "example_token_json =
     JDict [(''expires_in'', JInt 2000), (''scope'', JStr ''default''),
            (''token_type'', JStr ''Bearer''), (''access_token'', JStr ''tok1''),
            (''jwt_token'', JStr ''jwt1''), (''jwt_pucomex'', JNull)]"

definition example_response :: response where
  "example_response =
     \<lparr>status_code = 200, resp_text = ''<token document>'',
      resp_json = Some example_token_json\<rparr>"

definition not_found_response :: response where
  "not_found_response = \<lparr>status_code = 404, resp_text = ''Not Found'', resp_json = None\<rparr>"

definition example_manager :: auth_manager where
  "example_manager =
     \<lparr>consumer_key = ''key'', consumer_secret = ''secret'',
      certificate_path = ''/certs/client.p12'', certificate_password = ''pw'',
      environment = PRODUCTION, cached_token = None, token_expires_at = None\<rparr>"

text \<open>A world whose clock reads 1000, 1001, ..., with an empty storage directory, an
  identity provider that answers every request with the token document, and a
  business endpoint that always times out.\<close>

definition example_world :: world where
  "example_world =
     \<lparr>clock = (\<lambda>n. 1000 + real n), ticks = 0, files = (\<lambda>p. None),
      write_fails = (\<lambda>p. False), unlink_fails = (\<lambda>p. False), file_reads = 0,
      idp = (\<lambda>n. Responds example_response), idp_calls = 0,
      http = (\<lambda>n req. Raises (TimeoutException ''timed out'')), http_calls = 0,
      slept = [], logged = []\<rparr>"

definition example_session :: http_session where
  "example_session = \<lparr>timeout = 30, max_retries = 3, retry_backoff = 1\<rparr>"

definition example_executor :: http_executor where
  "example_executor =
     \<lparr>config = \<lparr>cfg_environment = TRIAL, cfg_token = ''06aef429'', cfg_base_url = None,
                  cfg_auth_manager = None\<rparr>,
      session = example_session\<rparr>"

definition example_request :: http_request where
  "example_request =
     build_request example_executor ''Consultar'' (JDict []) ''06aef429'' None"

section \<open>What each step changes in the world\<close>

lemma is_token_valid_world:
  "snd (is_token_valid self t e w) = w\<lparr>ticks := ticks (snd (is_token_valid self t e w))\<rparr>"
  by (simp add: is_token_valid_def time_time_def Let_def split: option.splits)

lemma is_token_valid_worldE:
  obtains k where "snd (is_token_valid self t e w) = w\<lparr>ticks := k\<rparr>"
  using is_token_valid_world by blast

lemma is_token_valid_fst:
  "fst (is_token_valid self token expires_at w) =
     (case (case token of Some t \<Rightarrow> Some t | None \<Rightarrow> cached_token self) of
        None \<Rightarrow> False
      | Some t \<Rightarrow>
          (case (case expires_at of Some e \<Rightarrow> Some e | None \<Rightarrow> token_expires_at self) of
             None \<Rightarrow> False
           | Some e \<Rightarrow> clock w (ticks w) < e - 60))"
  by (simp add: is_token_valid_def time_time_def buffer_seconds_def Let_def split: option.splits)

lemma load_token_data_world:
  "snd (load_token_data d w) =
     w\<lparr>ticks := ticks (snd (load_token_data d w)), logged := logged (snd (load_token_data d w))\<rparr>"
  by (simp add: load_token_data_def time_time_def logger_def Let_def split: sum.splits)

lemma load_token_from_file_world:
  "snd (load_token_from_file w) =
     w\<lparr>ticks := ticks (snd (load_token_from_file w)),
       file_reads := file_reads (snd (load_token_from_file w)),
       logged := logged (snd (load_token_from_file w))\<rparr>"
proof (cases "files w TokenFile")
  case None
  then show ?thesis
    by (simp add: load_token_from_file_def path_exists_def logger_def)
next
  case (Some c)
  show ?thesis
  proof (cases c)
    case (Json d)
    obtain r v where rv: "load_token_data d (w\<lparr>file_reads := Suc (file_reads w)\<rparr>) = (r, v)"
      by (cases "load_token_data d (w\<lparr>file_reads := Suc (file_reads w)\<rparr>)")
    have "v = w\<lparr>file_reads := Suc (file_reads w), ticks := ticks v, logged := logged v\<rparr>"
      using load_token_data_world [of d "w\<lparr>file_reads := Suc (file_reads w)\<rparr>"] rv by simp
    then obtain k l where v: "v = w\<lparr>file_reads := Suc (file_reads w), ticks := k, logged := l\<rparr>"
      by blast
    show ?thesis
      using Some Json rv
      by (simp add: load_token_from_file_def path_exists_def logger_def Let_def v
          split: sum.splits option.splits prod.splits)
  qed (use Some in \<open>simp_all add: load_token_from_file_def path_exists_def logger_def Let_def\<close>)
qed

lemma load_token_from_file_worldE:
  obtains k r l where
    "snd (load_token_from_file w) = w\<lparr>ticks := k, file_reads := r, logged := l\<rparr>"
  using load_token_from_file_world by blast


lemma save_config_world:
  "save_config self w =
     w\<lparr>ticks := Suc (ticks w),
       files := files (save_config self w),
       logged := logged (save_config self w)\<rparr>"
  by (simp add: save_config_def time_time_def json_dump_to_def logger_def)



section \<open>The three ways of \<open>get_token\<close>\<close>



lemma get_token_fetch:
  assumes "\<not> memory_hit self w" "file_hit self w = None"
  shows "\<exists>k r l. get_token self w =
           fetch_token self (w\<lparr>ticks := k, file_reads := r, logged := l\<rparr>)"
proof -
  obtain k1 where w1: "snd (is_token_valid self None None w) = w\<lparr>ticks := k1\<rparr>"
    by (rule is_token_valid_worldE)
  obtain k2 r2 l2 where
    w2: "snd (load_token_from_file (w\<lparr>ticks := k1\<rparr>)) =
           w\<lparr>ticks := k1\<rparr>\<lparr>ticks := k2, file_reads := r2, logged := l2\<rparr>"
    by (rule load_token_from_file_worldE)
  let ?w2 = "w\<lparr>ticks := k2, file_reads := r2, logged := l2\<rparr>"
  obtain ft fe' where l: "load_token_from_file (w\<lparr>ticks := k1\<rparr>) = ((ft, fe'), ?w2)"
    using w2 by (cases "load_token_from_file (w\<lparr>ticks := k1\<rparr>)") auto
  obtain k3 where w3: "snd (is_token_valid self ft fe' ?w2) = ?w2\<lparr>ticks := k3\<rparr>"
    by (rule is_token_valid_worldE)
  show ?thesis
  proof (cases ft)
    case None
    then have "get_token self w = fetch_token self ?w2"
      using assms(1) l w1 by (simp add: memory_hit_def get_token_def split_beta)
    then show ?thesis by blast
  next
    case (Some t)
    then have "\<not> fst (is_token_valid self ft fe' ?w2)"
      using assms(2) l w1 by (auto simp: file_hit_def Let_def split: if_splits)
    then have "get_token self w = fetch_token self (?w2\<lparr>ticks := k3\<rparr>)"
      using assms(1) l w1 w3 Some by (simp add: memory_hit_def get_token_def split_beta)
    then have "get_token self w =
        fetch_token self (w\<lparr>ticks := k3, file_reads := r2, logged := l2\<rparr>)"
      by (cases w) simp
    then show ?thesis by blast
  qed
qed

section \<open>Fetching a new token\<close>


lemma fetch_token_raises:
  assumes "idp w (idp_calls w) = Raises e"
  shows "fetch_token self w =
           (Inl (wrap_exception e), self,
            w\<lparr>idp_calls := Suc (idp_calls w),
              logged := logged w @ [(DEBUG, ''Fetching new token from API'')]\<rparr>)"
  using assms by (simp add: fetch_token_def Let_def logger_def)

lemma fetch_token_not_200:
  assumes "idp w (idp_calls w) = Responds response" "status_code response \<noteq> 200"
  shows "fetch_token self w =
           (Inl (if status_code response = 400
                 then CertificateError (error_message response certificate_fallback)
                        (Some 400) (error_details response)
                 else if status_code response = 401 \<or> status_code response = 403
                 then InvalidCredentialsError (error_message response credentials_fallback)
                        (Some (status_code response)) (error_details response)
                 else AuthError
                        (error_message response
                           (''Authentication failed with status '' @ str_int (status_code response)))
                        (Some (status_code response)) (error_details response)),
            self,
            w\<lparr>idp_calls := Suc (idp_calls w),
              logged := logged w @ [(DEBUG, ''Fetching new token from API'')]\<rparr>)"
  using assms by (simp add: fetch_token_def Let_def logger_def)

lemma wrap_exception_status:
  "wrap_exception e =
     HTTPError (case e of RequestException t (Some st) \<Rightarrow> st | _ \<Rightarrow> 0)
       ((case e of RequestException t r \<Rightarrow> ''HTTP error during authentication: ''
         | _ \<Rightarrow> ''Unexpected error during authentication: '') @ str_exn e)
       JNull (Some e)"
  by (cases e) (simp_all add: wrap_exception_def split: option.splits)



section \<open>Status codes of the identity provider\<close>

text \<open>
  Claim C3. When \<open>get_token\<close> reaches the identity provider (neither the memory nor the
  token file gives a valid token): a response with status 400 raises \<open>CertificateError\<close>,
  status 401 or 403 raises \<open>InvalidCredentialsError\<close>, any other status outside 200..299
  raises \<open>AuthError\<close>, each with the status code of the response and its raw text under
  \<open>details["response"]\<close>; an exception of the transport raises \<open>HTTPError\<close> with that
  exception as its cause and status code 0, unless the exception carries a response,
  whose status is then reported.
\<close>

theorem get_token_status_mapping:
  assumes "\<not> memory_hit self w" and "file_hit self w = None"
  shows "(idp w (idp_calls w) = Responds response \<and> status_code response = 400 \<longrightarrow>
            (\<exists>m. fst (get_token self w) =
                   Inl (CertificateError m (Some (status_code response))
                          (JDict [(''response'', JStr (resp_text response))])))) \<and>
         (idp w (idp_calls w) = Responds response \<and>
            (status_code response = 401 \<or> status_code response = 403) \<longrightarrow>
            (\<exists>m. fst (get_token self w) =
                   Inl (InvalidCredentialsError m (Some (status_code response))
                          (JDict [(''response'', JStr (resp_text response))])))) \<and>
         (idp w (idp_calls w) = Responds response \<and>
            (status_code response < 200 \<or> 300 \<le> status_code response) \<and>
            status_code response \<notin> {400, 401, 403} \<longrightarrow>
            (\<exists>m. fst (get_token self w) =
                   Inl (AuthError m (Some (status_code response))
                          (JDict [(''response'', JStr (resp_text response))])))) \<and>
         (idp w (idp_calls w) = Raises e \<longrightarrow>
            (\<exists>m. fst (get_token self w) =
                   Inl (HTTPError (case e of RequestException t (Some st) \<Rightarrow> st | _ \<Rightarrow> 0)
                          m JNull (Some e))))"
proof -
  obtain k r l where
    g: "get_token self w = fetch_token self (w\<lparr>ticks := k, file_reads := r, logged := l\<rparr>)"
    using get_token_fetch [OF assms] by blast
  let ?v = "w\<lparr>ticks := k, file_reads := r, logged := l\<rparr>"
  have v: "idp ?v (idp_calls ?v) = idp w (idp_calls w)" by simp
  show ?thesis
  proof (intro conjI impI)
    assume "idp w (idp_calls w) = Responds response \<and> status_code response = 400"
    then show "\<exists>m. fst (get_token self w) =
        Inl (CertificateError m (Some (status_code response))
               (JDict [(''response'', JStr (resp_text response))]))"
      using fetch_token_not_200 [of ?v response self] v
      by (simp add: g error_details_def)
  next
    assume "idp w (idp_calls w) = Responds response \<and>
      (status_code response = 401 \<or> status_code response = 403)"
    then show "\<exists>m. fst (get_token self w) =
        Inl (InvalidCredentialsError m (Some (status_code response))
               (JDict [(''response'', JStr (resp_text response))]))"
      using fetch_token_not_200 [of ?v response self] v
      by (auto simp: g error_details_def)
  next
    assume "idp w (idp_calls w) = Responds response \<and>
      (status_code response < 200 \<or> 300 \<le> status_code response) \<and>
      status_code response \<notin> {400, 401, 403}"
    then show "\<exists>m. fst (get_token self w) =
        Inl (AuthError m (Some (status_code response))
               (JDict [(''response'', JStr (resp_text response))]))"
      using fetch_token_not_200 [of ?v response self] v
      by (auto simp: g error_details_def)
  next
    assume "idp w (idp_calls w) = Raises e"
    then show "\<exists>m. fst (get_token self w) =
        Inl (HTTPError (case e of RequestException t (Some st) \<Rightarrow> st | _ \<Rightarrow> 0)
               m JNull (Some e))"
      using fetch_token_raises [of ?v e self] v
      by (simp add: g wrap_exception_status)
  qed
qed


theorem get_token_status_mapping_witness:
  "\<not> memory_hit example_manager
       (example_world\<lparr>idp := (\<lambda>n. Responds \<lparr>status_code = 400, resp_text = ''denied'', resp_json = None\<rparr>)\<rparr>) \<and>
   file_hit example_manager
       (example_world\<lparr>idp := (\<lambda>n. Responds \<lparr>status_code = 400, resp_text = ''denied'', resp_json = None\<rparr>)\<rparr>) = None \<and>
   (\<exists>m. fst (get_token example_manager
       (example_world\<lparr>idp := (\<lambda>n. Responds \<lparr>status_code = 400, resp_text = ''denied'', resp_json = None\<rparr>)\<rparr>)) =
      Inl (CertificateError m (Some 400) (JDict [(''response'', JStr ''denied'')])))"
proof -
  let ?r = "\<lparr>status_code = 400, resp_text = ''denied'', resp_json = None\<rparr>"
  let ?w = "example_world\<lparr>idp := (\<lambda>n. Responds ?r)\<rparr>"
  have h1: "\<not> memory_hit example_manager ?w"
    by (simp add: memory_hit_def is_token_valid_fst example_manager_def)
  have h2: "file_hit example_manager ?w = None"
    by (simp add: file_hit_def is_token_valid_def load_token_from_file_def path_exists_def
        example_manager_def example_world_def logger_def)
  have h3: "idp ?w (idp_calls ?w) = Responds ?r \<and> status_code ?r = 400"
    by simp
  from get_token_status_mapping [OF h1 h2, of ?r] h3
  have "\<exists>m. fst (get_token example_manager ?w) =
      Inl (CertificateError m (Some 400) (JDict [(''response'', JStr ''denied'')]))"
    by simp
  with h1 h2 show ?thesis by blast
qed


section \<open>Only status 200 is a success\<close>

text \<open>
  Claim C10. When \<open>get_token\<close> reaches the identity provider and the response has a
  status in 200..299 other than 200, the call raises \<open>AuthError\<close> with that status code,
  the manager (and so its cached token and expiry) is left as it was and no file is
  written; a call that returns a token had a response with status exactly 200.
\<close>

theorem get_token_only_200:
  assumes "\<not> memory_hit self w" and "file_hit self w = None"
    and "idp w (idp_calls w) = Responds response"
  shows "(200 \<le> status_code response \<and> status_code response < 300 \<and>
            status_code response \<noteq> 200 \<longrightarrow>
            (\<exists>m. fst (get_token self w) =
                   Inl (AuthError m (Some (status_code response))
                          (JDict [(''response'', JStr (resp_text response))]))) \<and>
            fst (snd (get_token self w)) = self \<and>
            files (snd (snd (get_token self w))) = files w) \<and>
         ((\<exists>tok. fst (get_token self w) = Inr tok) \<longrightarrow> status_code response = 200)"
proof -
  obtain k r l where
    g: "get_token self w = fetch_token self (w\<lparr>ticks := k, file_reads := r, logged := l\<rparr>)"
    using get_token_fetch [OF assms(1,2)] by blast
  let ?v = "w\<lparr>ticks := k, file_reads := r, logged := l\<rparr>"
  have v: "idp ?v (idp_calls ?v) = Responds response" using assms(3) by simp
  have other: "status_code response \<noteq> 200 \<Longrightarrow>
      fetch_token self ?v =
        (Inl (if status_code response = 400
              then CertificateError (error_message response certificate_fallback)
                     (Some 400) (error_details response)
              else if status_code response = 401 \<or> status_code response = 403
              then InvalidCredentialsError (error_message response credentials_fallback)
                     (Some (status_code response)) (error_details response)
              else AuthError
                     (error_message response
                        (''Authentication failed with status '' @ str_int (status_code response)))
                     (Some (status_code response)) (error_details response)),
         self,
         ?v\<lparr>idp_calls := Suc (idp_calls ?v),
           logged := logged ?v @ [(DEBUG, ''Fetching new token from API'')]\<rparr>)"
    by (rule fetch_token_not_200 [OF v])
  show ?thesis
  proof (intro conjI impI)
    assume a: "200 \<le> status_code response \<and> status_code response < 300 \<and>
      status_code response \<noteq> 200"
    then show "\<exists>m. fst (get_token self w) =
        Inl (AuthError m (Some (status_code response))
               (JDict [(''response'', JStr (resp_text response))]))"
      using other by (auto simp: g error_details_def)
    from a show "fst (snd (get_token self w)) = self"
      using other by (simp add: g)
    from a show "files (snd (snd (get_token self w))) = files w"
      using other by (simp add: g)
  next
    assume "\<exists>tok. fst (get_token self w) = Inr tok"
    then obtain tok where t: "fst (fetch_token self ?v) = Inr tok"
      by (auto simp: g)
    show "status_code response = 200"
    proof (rule ccontr)
      assume "status_code response \<noteq> 200"
      from other [OF this] t show False by simp
    qed
  qed
qed

theorem get_token_only_200_witness:
  "\<not> memory_hit example_manager
       (example_world\<lparr>idp := (\<lambda>n. Responds (example_response\<lparr>status_code := 201\<rparr>))\<rparr>) \<and>
   file_hit example_manager
       (example_world\<lparr>idp := (\<lambda>n. Responds (example_response\<lparr>status_code := 201\<rparr>))\<rparr>) = None \<and>
   (\<exists>m. fst (get_token example_manager
       (example_world\<lparr>idp := (\<lambda>n. Responds (example_response\<lparr>status_code := 201\<rparr>))\<rparr>)) =
      Inl (AuthError m (Some 201) (JDict [(''response'', JStr ''<token document>'')]))) \<and>
   cached_token (fst (snd (get_token example_manager
       (example_world\<lparr>idp := (\<lambda>n. Responds (example_response\<lparr>status_code := 201\<rparr>))\<rparr>)))) = None"
proof -
  let ?r = "example_response\<lparr>status_code := 201\<rparr>"
  let ?w = "example_world\<lparr>idp := (\<lambda>n. Responds ?r)\<rparr>"
  have h1: "\<not> memory_hit example_manager ?w"
    by (simp add: memory_hit_def is_token_valid_fst example_manager_def)
  have h2: "file_hit example_manager ?w = None"
    by (simp add: file_hit_def is_token_valid_def load_token_from_file_def path_exists_def
        example_manager_def example_world_def logger_def)
  have h3: "idp ?w (idp_calls ?w) = Responds ?r"
    by simp
  have h4: "200 \<le> status_code ?r \<and> status_code ?r < 300 \<and> status_code ?r \<noteq> 200"
    by (simp add: example_response_def)
  from get_token_only_200 [OF h1 h2 h3] h4
  have "(\<exists>m. fst (get_token example_manager ?w) =
      Inl (AuthError m (Some 201) (JDict [(''response'', JStr ''<token document>'')]))) \<and>
      fst (snd (get_token example_manager ?w)) = example_manager"
    by (simp add: example_response_def)
  with h1 h2 show ?thesis by (simp add: example_manager_def)
qed

section \<open>The example, evaluated\<close>



section \<open>The validity check\<close>



section \<open>The resolution order of \<open>get_token\<close>\<close>




section \<open>A malformed token file is a cache miss\<close>






section \<open>The token file round trip\<close>

lemma TokenResponse_valid:
  "TokenResponse kwargs = Inr tok \<Longrightarrow> validate_token_type (token_type tok)"
  by (auto simp: TokenResponse_def split: option.splits if_splits)





section \<open>Clearing the cache and the stored token\<close>

text \<open>
  Claim C9. \<open>clear_cache\<close> sets the in-memory token and its expiry to \<open>None\<close> and leaves
  the world, and so the token file, as it was. \<open>clear_stored_token\<close> always returns
  normally with the in-memory token and expiry set to \<open>None\<close>; it leaves the
  configuration file alone; when \<open>unlink\<close> does not fail there is no token file afterwards
  (and nothing changes at all when there was none); when the file exists and \<open>unlink\<close>
  fails the files are as they were and the failure is logged as a warning.
\<close>

theorem clear_cache_and_stored_token:
  "cached_token (fst (clear_cache self w)) = None \<and>
   token_expires_at (fst (clear_cache self w)) = None \<and>
   snd (clear_cache self w) = w \<and>
   files (snd (clear_cache self w)) TokenFile = files w TokenFile \<and>
   fst (clear_stored_token self w) = Inr () \<and>
   cached_token (fst (snd (clear_stored_token self w))) = None \<and>
   token_expires_at (fst (snd (clear_stored_token self w))) = None \<and>
   files (snd (snd (clear_stored_token self w))) ConfigFile = files w ConfigFile \<and>
   (\<not> unlink_fails w TokenFile \<longrightarrow>
      files (snd (snd (clear_stored_token self w))) TokenFile = None) \<and>
   (files w TokenFile = None \<longrightarrow> snd (snd (clear_stored_token self w)) = w) \<and>
   (files w TokenFile \<noteq> None \<and> unlink_fails w TokenFile \<longrightarrow>
      files (snd (snd (clear_stored_token self w))) = files w \<and>
      (WARNING, ''Failed to delete token file'') \<in>
        set (logged (snd (snd (clear_stored_token self w)))))"
  by (simp add: clear_cache_def clear_stored_token_def path_exists_def path_unlink_def
      logger_def)

theorem clear_cache_and_stored_token_witness:
  "files (example_world\<lparr>files := (\<lambda>p. Some NotJson), unlink_fails := (\<lambda>p. True)\<rparr>) TokenFile
     \<noteq> None \<and>
   unlink_fails (example_world\<lparr>files := (\<lambda>p. Some NotJson), unlink_fails := (\<lambda>p. True)\<rparr>)
     TokenFile \<and>
   fst (clear_stored_token
          (example_manager\<lparr>cached_token := Some example_token, token_expires_at := Some 3000\<rparr>)
          (example_world\<lparr>files := (\<lambda>p. Some NotJson), unlink_fails := (\<lambda>p. True)\<rparr>)) = Inr () \<and>
   cached_token (fst (snd (clear_stored_token
          (example_manager\<lparr>cached_token := Some example_token, token_expires_at := Some 3000\<rparr>)
          (example_world\<lparr>files := (\<lambda>p. Some NotJson), unlink_fails := (\<lambda>p. True)\<rparr>)))) = None \<and>
   files (snd (snd (clear_stored_token
          (example_manager\<lparr>cached_token := Some example_token, token_expires_at := Some 3000\<rparr>)
          (example_world\<lparr>files := (\<lambda>p. Some NotJson), unlink_fails := (\<lambda>p. True)\<rparr>))))
     TokenFile = Some NotJson \<and>
   (WARNING, ''Failed to delete token file'') \<in>
     set (logged (snd (snd (clear_stored_token
          (example_manager\<lparr>cached_token := Some example_token, token_expires_at := Some 3000\<rparr>)
          (example_world\<lparr>files := (\<lambda>p. Some NotJson), unlink_fails := (\<lambda>p. True)\<rparr>))))) \<and>
   \<not> unlink_fails (example_world\<lparr>files := (\<lambda>p. Some NotJson)\<rparr>) TokenFile \<and>
   files (snd (snd (clear_stored_token example_manager
          (example_world\<lparr>files := (\<lambda>p. Some NotJson)\<rparr>)))) TokenFile = None"
proof -
  let ?m = "example_manager\<lparr>cached_token := Some example_token, token_expires_at := Some 3000\<rparr>"
  let ?w = "example_world\<lparr>files := (\<lambda>p. Some NotJson), unlink_fails := (\<lambda>p. True)\<rparr>"
  let ?u = "example_world\<lparr>files := (\<lambda>p. Some NotJson)\<rparr>"
  have h: "files ?w TokenFile \<noteq> None \<and> unlink_fails ?w TokenFile"
    by simp
  have h': "\<not> unlink_fails ?u TokenFile"
    by (simp add: example_world_def)
  from clear_cache_and_stored_token [of ?m ?w] h
  have a: "fst (clear_stored_token ?m ?w) = Inr () \<and>
      cached_token (fst (snd (clear_stored_token ?m ?w))) = None \<and>
      files (snd (snd (clear_stored_token ?m ?w))) TokenFile = Some NotJson \<and>
      (WARNING, ''Failed to delete token file'') \<in>
        set (logged (snd (snd (clear_stored_token ?m ?w))))"
    by simp
  from clear_cache_and_stored_token [of example_manager ?u] h'
  have b: "files (snd (snd (clear_stored_token example_manager ?u))) TokenFile = None"
    by blast
  from h h' a b show ?thesis by blast
qed

section \<open>Retries of \<open>HTTPSession.request\<close>\<close>


lemma request_from_retries:
  "http_calls w + Suc k < http_calls (snd (request_from self req attempt backoff lexc w)) \<Longrightarrow>
     \<exists>e. http w (http_calls w + k) req = Raises e \<and> retryable e"
proof (induction self req attempt backoff lexc w arbitrary: k rule: request_from.induct)
  case (1 self req attempt backoff last_exception w)
  show ?case
  proof (cases "attempt < max_retries self + 1")
    case False
    with "1.prems" show ?thesis
      by (subst (asm) request_from.simps) (simp split: option.splits)
  next
    case True
    show ?thesis
    proof (cases "http w (http_calls w) req")
      case (Responds response)
      with True "1.prems" show ?thesis
        by (subst (asm) request_from.simps) (simp add: client_request_def)
    next
      case (Raises e)
      show ?thesis
      proof (cases "retryable e \<and> attempt < max_retries self")
        case False
        with True Raises "1.prems" show ?thesis
          by (subst (asm) request_from.simps) (auto simp: client_request_def split: if_splits)
      next
        case r: True
        let ?y = "w\<lparr>http_calls := Suc (http_calls w)\<rparr>"
        have step: "request_from self req attempt backoff last_exception w =
            request_from self req (attempt + 1) (backoff * 2) (Some e) (asyncio_sleep backoff ?y)"
          using True Raises r by (subst request_from.simps) (simp add: client_request_def)
        have cr: "(Raises e, ?y) = client_request req w"
          using Raises by (simp add: client_request_def)
        show ?thesis
        proof (cases k)
          case 0
          with Raises r show ?thesis by simp
        next
          case (Suc j)
          have "http_calls (asyncio_sleep backoff ?y) + Suc j <
              http_calls (snd (request_from self req (attempt + 1) (backoff * 2) (Some e)
                (asyncio_sleep backoff ?y)))"
            using "1.prems" Suc step by (simp add: asyncio_sleep_def)
          from "1.IH" [OF True cr refl _ _ this] r
          show ?thesis
            using Suc by (simp add: asyncio_sleep_def)
        qed
      qed
    qed
  qed
qed



text \<open>
  Claim C5. An attempt of \<open>request\<close> that receives a response, whatever its status, is
  the last one: when the first attempt receives a response it is returned at once, after
  exactly one attempt and no sleep. An exception that is neither a timeout nor a network
  error is raised at once as well. In every call, each attempt but the last one ended in
  a timeout or network error: nothing else is retried.
\<close>

theorem request_no_retry_on_response:
  assumes "0 \<le> max_retries self"
  shows "(http w (http_calls w) req = Responds response \<longrightarrow>
            request self req w =
              (Inr (Some response), w\<lparr>http_calls := Suc (http_calls w)\<rparr>)) \<and>
         (http w (http_calls w) req = Raises e \<and> \<not> retryable e \<longrightarrow>
            request self req w = (Inl e, w\<lparr>http_calls := Suc (http_calls w)\<rparr>)) \<and>
         (\<forall>k. http_calls w + Suc k < http_calls (snd (request self req w)) \<longrightarrow>
              (\<exists>x. http w (http_calls w + k) req = Raises x \<and> retryable x))"
proof (intro conjI impI allI)
  assume "http w (http_calls w) req = Responds response"
  then show "request self req w =
      (Inr (Some response), w\<lparr>http_calls := Suc (http_calls w)\<rparr>)"
    using assms
    by (simp add: request_def) (subst request_from.simps, simp add: client_request_def)
next
  assume "http w (http_calls w) req = Raises e \<and> \<not> retryable e"
  then show "request self req w = (Inl e, w\<lparr>http_calls := Suc (http_calls w)\<rparr>)"
    using assms
    by (simp add: request_def) (subst request_from.simps, simp add: client_request_def)
next
  fix k
  assume "http_calls w + Suc k < http_calls (snd (request self req w))"
  then show "\<exists>x. http w (http_calls w + k) req = Raises x \<and> retryable x"
    unfolding request_def by (rule request_from_retries)
qed

theorem request_no_retry_on_response_witness:
  "0 \<le> max_retries example_session \<and>
   http (example_world\<lparr>http := (\<lambda>n req. Responds not_found_response)\<rparr>)
     (http_calls (example_world\<lparr>http := (\<lambda>n req. Responds not_found_response)\<rparr>))
     example_request = Responds not_found_response \<and>
   request example_session example_request
     (example_world\<lparr>http := (\<lambda>n req. Responds not_found_response)\<rparr>) =
     (Inr (Some not_found_response),
      example_world\<lparr>http := (\<lambda>n req. Responds not_found_response), http_calls := 1\<rparr>)"
proof -
  let ?w = "example_world\<lparr>http := (\<lambda>n req. Responds not_found_response)\<rparr>"
  have h1: "0 \<le> max_retries example_session"
    by (simp add: example_session_def)
  have h2: "http ?w (http_calls ?w) example_request = Responds not_found_response"
    by simp
  from request_no_retry_on_response [OF h1, of ?w example_request not_found_response] h2
  have "request example_session example_request ?w =
      (Inr (Some not_found_response), ?w\<lparr>http_calls := Suc (http_calls ?w)\<rparr>)"
    by blast
  then have "request example_session example_request ?w =
      (Inr (Some not_found_response),
       example_world\<lparr>http := (\<lambda>n req. Responds not_found_response), http_calls := 1\<rparr>)"
    by (simp add: example_world_def)
  with h1 h2 show ?thesis by blast
qed

section \<open>Error responses of the business endpoint\<close>

text \<open>
  Claim C6, as stated, makes the \<open>APIError\<close> of a 4xx response carry the raw text when
  the body is not JSON. \<open>execute\<close> passes \<open>response_body=error_body if
  isinstance(error_body, dict) else None\<close>: a 404 whose body is the text \<open>Not Found\<close> gives
  an \<open>APIError\<close> whose body is \<open>None\<close>.
\<close>

theorem execute_api_error_counterexample:
  "fst (execute example_executor ''Consultar'' (JDict [])
          (example_world\<lparr>http := (\<lambda>n req. Responds not_found_response)\<rparr>)) =
     Inl (SDK (APIError ''API error: 404'' (Some 404) JNull)) \<and>
   resp_json not_found_response = None \<and>
   resp_text not_found_response = ''Not Found''"
  by (simp add: execute_def resolve_token_def example_executor_def request_def
      request_from.simps client_request_def example_session_def example_world_def
      not_found_response_def handle_result_def str_int_def str_nat.simps digit_def)

text \<open>
  Claim C6, amended. When \<open>execute\<close> has its token and \<open>session.request\<close> returns a
  response: a status of 500 or more raises \<open>HTTPError\<close> (the server error) with the status
  code and the body, which is the parsed JSON when the body is valid JSON and the raw
  text otherwise; a status in 400..499 raises \<open>APIError\<close> with the status code and the
  parsed body when it is a JSON object, and with no body (\<open>None\<close>) when the body is not
  JSON or is JSON of another kind.
\<close>

theorem execute_error_response:
  assumes "resolve_token self w = (Inr (token, jwt), self1, w1)"
    and "request (session self) (build_request self endpoint body token jwt) w1 =
           (Inr (Some response), w2)"
  shows "(500 \<le> status_code response \<longrightarrow>
            (\<exists>m. fst (execute self endpoint body w) =
               Inl (SDK (HTTPError (status_code response) m
                      (case resp_json response of
                         Some v \<Rightarrow> v
                       | None \<Rightarrow> JStr (resp_text response))
                      None)))) \<and>
         (400 \<le> status_code response \<and> status_code response < 500 \<longrightarrow>
            (\<exists>m. fst (execute self endpoint body w) =
               Inl (SDK (APIError m (Some (status_code response))
                      (case resp_json response of
                         Some (JDict kvs) \<Rightarrow> JDict kvs
                       | _ \<Rightarrow> JNull)))))"
  using assms
  by (auto simp: execute_def handle_result_def Let_def split: option.splits json.splits)

theorem execute_error_response_witness:
  "resolve_token example_executor
     (example_world\<lparr>http := (\<lambda>n req. Responds
        \<lparr>status_code = 503, resp_text = ''Service Unavailable'', resp_json = None\<rparr>)\<rparr>) =
     (Inr (''06aef429'', None), example_executor,
      example_world\<lparr>http := (\<lambda>n req. Responds
        \<lparr>status_code = 503, resp_text = ''Service Unavailable'', resp_json = None\<rparr>)\<rparr>) \<and>
   fst (request (session example_executor)
     (build_request example_executor ''Consultar'' (JDict []) ''06aef429'' None)
     (example_world\<lparr>http := (\<lambda>n req. Responds
        \<lparr>status_code = 503, resp_text = ''Service Unavailable'', resp_json = None\<rparr>)\<rparr>)) =
     Inr (Some \<lparr>status_code = 503, resp_text = ''Service Unavailable'', resp_json = None\<rparr>) \<and>
   (\<exists>m. fst (execute example_executor ''Consultar'' (JDict [])
     (example_world\<lparr>http := (\<lambda>n req. Responds
        \<lparr>status_code = 503, resp_text = ''Service Unavailable'', resp_json = None\<rparr>)\<rparr>)) =
     Inl (SDK (HTTPError 503 m (JStr ''Service Unavailable'') None))) \<and>
   fst (request (session example_executor)
     (build_request example_executor ''Consultar'' (JDict []) ''06aef429'' None)
     (example_world\<lparr>http := (\<lambda>n req. Responds
        \<lparr>status_code = 422, resp_text = ''<error document>'',
         resp_json = Some (JDict [(''mensagem'', JStr ''invalido'')])\<rparr>)\<rparr>)) =
     Inr (Some \<lparr>status_code = 422, resp_text = ''<error document>'',
         resp_json = Some (JDict [(''mensagem'', JStr ''invalido'')])\<rparr>) \<and>
   (\<exists>m. fst (execute example_executor ''Consultar'' (JDict [])
     (example_world\<lparr>http := (\<lambda>n req. Responds
        \<lparr>status_code = 422, resp_text = ''<error document>'',
         resp_json = Some (JDict [(''mensagem'', JStr ''invalido'')])\<rparr>)\<rparr>)) =
     Inl (SDK (APIError m (Some 422) (JDict [(''mensagem'', JStr ''invalido'')]))))"
proof -
  let ?q = "build_request example_executor ''Consultar'' (JDict []) ''06aef429'' None"
  have h1: "resolve_token example_executor (example_world\<lparr>http := (\<lambda>n req. Responds r)\<rparr>) =
      (Inr (''06aef429'', None), example_executor,
       example_world\<lparr>http := (\<lambda>n req. Responds r)\<rparr>)" for r
    by (simp add: resolve_token_def example_executor_def)
  have h2: "request (session example_executor) ?q
        (example_world\<lparr>http := (\<lambda>n req. Responds r)\<rparr>) =
      (Inr (Some r), example_world\<lparr>http := (\<lambda>n req. Responds r), http_calls := 1\<rparr>)" for r
    by (simp add: request_def request_from.simps client_request_def example_executor_def
        example_session_def example_world_def)
  let ?r = "\<lparr>status_code = 503, resp_text = ''Service Unavailable'', resp_json = None\<rparr>"
  let ?s = "\<lparr>status_code = 422, resp_text = ''<error document>'',
      resp_json = Some (JDict [(''mensagem'', JStr ''invalido'')])\<rparr>"
  from execute_error_response [OF h1 h2, of ?r]
  have a: "\<exists>m. fst (execute example_executor ''Consultar'' (JDict [])
        (example_world\<lparr>http := (\<lambda>n req. Responds ?r)\<rparr>)) =
      Inl (SDK (HTTPError 503 m (JStr ''Service Unavailable'') None))"
    by simp
  from execute_error_response [OF h1 h2, of ?s]
  have b: "\<exists>m. fst (execute example_executor ''Consultar'' (JDict [])
        (example_world\<lparr>http := (\<lambda>n req. Responds ?s)\<rparr>)) =
      Inl (SDK (APIError m (Some 422) (JDict [(''mensagem'', JStr ''invalido'')])))"
    by simp
  from a b h1 [of ?r] h2 [of ?r] h2 [of ?s] show ?thesis by simp
qed

end
